theory Spec2Isabelle
  imports Complex_Main "HOL-Library.AList" "HOL-Library.Char_ord" "HOL-Library.List_Lexorder"
begin

section \<open>Sales analytics pipeline: the data processor\<close>

text \<open>
  A shallow embedding of \<^verbatim>\<open>src/utils/data_processor.py\<close>. Conventions:
  \<^item> a transaction dictionary with its fixed keys is a record; the enriched dictionary
    extends it with the four API keys;
  \<^item> Python \<^verbatim>\<open>int\<close> is \<open>int\<close>; Python \<^verbatim>\<open>float\<close> is modelled by the exact
    rationals \<open>rat\<close>: sums and products are exact here where the program rounds to a
    double, and there is no NaN or infinity;
  \<^item> the builtin conversions \<^verbatim>\<open>int(s)\<close> and \<^verbatim>\<open>float(s)\<close> are parameters
    \<open>py_int\<close> and \<open>py_float\<close> of the functions that call them, with \<open>None\<close> for the
    \<^verbatim>\<open>ValueError\<close> they raise; \<^verbatim>\<open>str(x)\<close> of a float is the parameter \<open>str_float\<close>;
  \<^item> a Python dictionary that is iterated is an association list in insertion order
    (\<open>AList.update\<close> overwrites in place and appends a new key at the end, as a
    \<^verbatim>\<open>dict\<close> does); a dictionary that is only looked up is a map;
  \<^item> an exception that leaves a function is a value \<open>Inl e\<close> of a sum type;
  \<^item> a string is a list of characters, a character standing for a code point below 256.
\<close>

subsection \<open>String methods\<close>

text \<open>\<^verbatim>\<open>str.isspace\<close> on the code points below 256.\<close>

definition py_isspace :: "char \<Rightarrow> bool" where
  "py_isspace c =
     (let n = (of_char c :: nat)
      in (9 \<le> n \<and> n \<le> 13) \<or> (28 \<le> n \<and> n \<le> 32) \<or> n = 133 \<or> n = 160)"

text \<open>\<^verbatim>\<open>s.strip()\<close>\<close>

definition strip :: "string \<Rightarrow> string" where
  "strip s = rev (dropWhile py_isspace (rev (dropWhile py_isspace s)))"

text \<open>\<^verbatim>\<open>s.split(sep)\<close> for a one-character separator: never the empty list.\<close>

fun split_on :: "char \<Rightarrow> string \<Rightarrow> string list" where
  "split_on sep [] = [[]]"
| "split_on sep (c # cs) =
     (if c = sep then [] # split_on sep cs
      else (case split_on sep cs of
              [] \<Rightarrow> [[c]]
            | p # ps \<Rightarrow> (c # p) # ps))"

text \<open>\<^verbatim>\<open>sep.join(parts)\<close> for a one-character separator.\<close>

fun join :: "char \<Rightarrow> string list \<Rightarrow> string" where
  "join sep [] = []"
| "join sep [p] = p"
| "join sep (p # q # ps) = p @ sep # join sep (q # ps)"

text \<open>\<^verbatim>\<open>s.replace(a, b)\<close> and \<^verbatim>\<open>s.replace(a, '')\<close> for one-character \<open>a\<close>, \<open>b\<close>.\<close>

definition replace_char :: "char \<Rightarrow> char \<Rightarrow> string \<Rightarrow> string" where
  "replace_char a b s = map (\<lambda>c. if c = a then b else c) s"

definition remove_char :: "char \<Rightarrow> string \<Rightarrow> string" where
  "remove_char a s = filter (\<lambda>c. c \<noteq> a) s"


subsection \<open>Data model\<close>

record transaction =
  TransactionID :: string
  Date :: string
  ProductID :: string
  ProductName :: string
  Quantity :: int
  UnitPrice :: rat
  CustomerID :: string
  Region :: string

record enriched_transaction = transaction +
  API_Category :: "string option"
  API_Brand :: "string option"
  API_Rating :: "rat option"
  API_Match :: bool

text \<open>An entry of the product mapping, as \<^verbatim>\<open>create_product_mapping\<close> builds it.\<close>

record product_info =
  title :: string
  category :: string
  brand :: string
  rating :: rat

datatype error = ZeroDivisionError | TypeError

text \<open>\<^verbatim>\<open>Quantity * UnitPrice\<close>, recomputed wherever the code needs it.\<close>

definition amount :: "'a transaction_scheme \<Rightarrow> rat" where
  "amount t = of_int (Quantity t) * UnitPrice t"

subsection \<open>parse_transactions\<close>

text \<open>
  The body of the loop for one line: \<open>None\<close> is \<^verbatim>\<open>continue\<close> (a wrong number of parts,
  or the \<^verbatim>\<open>ValueError\<close> of a conversion, caught), \<open>Some t\<close> is the record appended.
  The dictionary literal evaluates \<^verbatim>\<open>int(qty_str)\<close> before \<^verbatim>\<open>float(price_str)\<close>.
\<close>

definition parse_line ::
  "(string \<Rightarrow> int option) \<Rightarrow> (string \<Rightarrow> rat option) \<Rightarrow> string \<Rightarrow> transaction option" where
  "parse_line py_int py_float line =
     (let parts = split_on CHR ''|'' line
      in if length parts \<noteq> 8 then None
         else
           (let product_name = replace_char CHR '','' CHR '' '' (parts ! 3);
                qty_str = remove_char CHR '','' (parts ! 4);
                price_str = remove_char CHR '','' (parts ! 5)
            in case py_int qty_str of
                 None \<Rightarrow> None
               | Some q \<Rightarrow>
                   (case py_float price_str of
                      None \<Rightarrow> None
                    | Some p \<Rightarrow>
                        Some \<lparr>TransactionID = strip (parts ! 0),
                              Date = strip (parts ! 1),
                              ProductID = strip (parts ! 2),
                              ProductName = strip product_name,
                              Quantity = q,
                              UnitPrice = p,
                              CustomerID = strip (parts ! 6),
                              Region = strip (parts ! 7)\<rparr>)))"

fun parse_loop ::
  "(string \<Rightarrow> int option) \<Rightarrow> (string \<Rightarrow> rat option) \<Rightarrow> string list \<Rightarrow> transaction list
     \<Rightarrow> transaction list" where
  "parse_loop py_int py_float [] parsed_data = parsed_data"
| "parse_loop py_int py_float (line # raw_lines) parsed_data =
     (case parse_line py_int py_float line of
        None \<Rightarrow> parse_loop py_int py_float raw_lines parsed_data
      | Some t \<Rightarrow> parse_loop py_int py_float raw_lines (parsed_data @ [t]))"

definition parse_transactions ::
  "(string \<Rightarrow> int option) \<Rightarrow> (string \<Rightarrow> rat option) \<Rightarrow> string list \<Rightarrow> transaction list" where
  "parse_transactions py_int py_float raw_lines = parse_loop py_int py_float raw_lines []"

subsection \<open>validate_and_filter\<close>





subsection \<open>Aggregation\<close>

text \<open>\<^verbatim>\<open>round(x, 2)\<close>: to two decimals, a tie going to the even neighbour.\<close>

definition py_round2 :: "rat \<Rightarrow> rat" where
  "py_round2 x =
     (let y = x * 100;
          f = \<lfloor>y\<rfloor>;
          d = y - of_int f
      in of_int (if d < 1 / 2 then f else if 1 / 2 < d then f + 1
                 else if even f then f else f + 1) / 100)"

definition calculate_total_revenue :: "'a transaction_scheme list \<Rightarrow> rat" where
  "calculate_total_revenue transactions = sum_list (map amount transactions)"

record region_totals =
  total_sales :: rat
  transaction_count :: nat

record region_stats = region_totals +
  percentage :: rat

text \<open>The body of the first loop of \<^verbatim>\<open>region_wise_sales\<close>.\<close>

definition region_step ::
  "transaction \<Rightarrow> (string \<times> region_totals) list \<Rightarrow> (string \<times> region_totals) list" where
  "region_step t stats =
     (let region = Region t;
          rev' = amount t;
          stats = (if map_of stats region = None
                   then AList.update region \<lparr>total_sales = 0, transaction_count = 0\<rparr> stats
                   else stats);
          stats = AList.map_entry region (\<lambda>s. s\<lparr>total_sales := total_sales s + rev'\<rparr>) stats;
          stats = AList.map_entry region
                    (\<lambda>s. s\<lparr>transaction_count := transaction_count s + 1\<rparr>) stats
      in stats)"

text \<open>
  The second loop: the division \<^verbatim>\<open>total_sales / total_rev\<close> has no guard, so the first
  region met raises \<^verbatim>\<open>ZeroDivisionError\<close> when the total revenue is zero.
\<close>

fun add_percentages ::
  "rat \<Rightarrow> (string \<times> region_totals) list \<Rightarrow> error + (string \<times> region_stats) list" where
  "add_percentages total_rev [] = Inr []"
| "add_percentages total_rev ((region, s) # stats) =
     (if total_rev = 0 then Inl ZeroDivisionError
      else (case add_percentages total_rev stats of
              Inl e \<Rightarrow> Inl e
            | Inr stats' \<Rightarrow>
                Inr ((region,
                      \<lparr>total_sales = total_sales s, transaction_count = transaction_count s,
                       percentage = py_round2 (total_sales s / total_rev * 100)\<rparr>) # stats')))"

text \<open>
  \<^verbatim>\<open>sorted(..., key=k, reverse=True)\<close> is stable and descending: it is the stable
  ascending sort on the negated key.
\<close>

definition region_wise_sales :: "transaction list \<Rightarrow> error + (string \<times> region_stats) list" where
  "region_wise_sales transactions =
     (let total_rev = calculate_total_revenue transactions;
          stats = fold region_step transactions []
      in case add_percentages total_rev stats of
           Inl e \<Rightarrow> Inl e
         | Inr stats' \<Rightarrow> Inr (sort_key (\<lambda>item. - total_sales (snd item)) stats'))"

text \<open>\<^verbatim>\<open>product_data[name]\<close> is the pair \<open>(qty, rev)\<close>.\<close>

definition product_step ::
  "transaction \<Rightarrow> (string \<times> int \<times> rat) list \<Rightarrow> (string \<times> int \<times> rat) list" where
  "product_step t product_data =
     (let name = ProductName t;
          product_data = (if map_of product_data name = None
                          then AList.update name (0, 0) product_data
                          else product_data);
          product_data = AList.map_entry name (\<lambda>(q, r). (q + Quantity t, r)) product_data;
          product_data = AList.map_entry name (\<lambda>(q, r). (q, r + amount t)) product_data
      in product_data)"

text \<open>The slice \<^verbatim>\<open>result[:n]\<close> for \<open>n \<ge> 0\<close>.\<close>

definition top_selling_products :: "transaction list \<Rightarrow> nat \<Rightarrow> (string \<times> int \<times> rat) list" where
  "top_selling_products transactions n =
     (let product_data = fold product_step transactions [];
          result = sort_key (\<lambda>x. - fst (snd x)) product_data
      in take n result)"

record customer_totals =
  total_spent :: rat
  purchase_count :: nat
  products_bought :: "string set"

record customer_stats =
  cs_total_spent :: rat
  cs_purchase_count :: nat
  cs_products_bought :: "string list"
  avg_order_value :: rat

definition customer_step ::
  "transaction \<Rightarrow> (string \<times> customer_totals) list \<Rightarrow> (string \<times> customer_totals) list" where
  "customer_step t cust_stats =
     (let cid = CustomerID t;
          cust_stats =
            (if map_of cust_stats cid = None
             then AList.update cid
                    \<lparr>total_spent = 0, purchase_count = 0, products_bought = {}\<rparr> cust_stats
             else cust_stats);
          cust_stats = AList.map_entry cid
                         (\<lambda>s. s\<lparr>total_spent := total_spent s + amount t\<rparr>) cust_stats;
          cust_stats = AList.map_entry cid
                         (\<lambda>s. s\<lparr>purchase_count := purchase_count s + 1\<rparr>) cust_stats;
          cust_stats = AList.map_entry cid
                         (\<lambda>s. s\<lparr>products_bought := insert (ProductName t) (products_bought s)\<rparr>)
                         cust_stats
      in cust_stats)"

fun add_averages ::
  "(string \<times> customer_totals) list \<Rightarrow> error + (string \<times> customer_stats) list" where
  "add_averages [] = Inr []"
| "add_averages ((cid, s) # cust_stats) =
     (if purchase_count s = 0 then Inl ZeroDivisionError
      else (case add_averages cust_stats of
              Inl e \<Rightarrow> Inl e
            | Inr cust_stats' \<Rightarrow>
                Inr ((cid,
                      \<lparr>cs_total_spent = total_spent s, cs_purchase_count = purchase_count s,
                       cs_products_bought = sorted_list_of_set (products_bought s),
                       avg_order_value =
                         py_round2 (total_spent s / of_nat (purchase_count s))\<rparr>)
                     # cust_stats')))"

definition customer_analysis :: "transaction list \<Rightarrow> error + (string \<times> customer_stats) list" where
  "customer_analysis transactions =
     (case add_averages (fold customer_step transactions []) of
        Inl e \<Rightarrow> Inl e
      | Inr cust_stats \<Rightarrow> Inr (sort_key (\<lambda>x. - cs_total_spent (snd x)) cust_stats))"

definition low_step :: "transaction \<Rightarrow> (string \<times> int) list \<Rightarrow> (string \<times> int) list" where
  "low_step t product_data =
     (let name = ProductName t;
          product_data = (if map_of product_data name = None
                          then AList.update name 0 product_data
                          else product_data)
      in AList.map_entry name (\<lambda>q. q + Quantity t) product_data)"

definition low_performing_products :: "transaction list \<Rightarrow> int \<Rightarrow> (string \<times> int) list" where
  "low_performing_products transactions threshold =
     (let product_data = fold low_step transactions [];
          low_perf = filter (\<lambda>(name, q). q < threshold) product_data
      in sort_key snd low_perf)"

text \<open>\<^verbatim>\<open>trend[date]\<close> while it is accumulated: revenue, count, set of customers.\<close>

definition trend_step ::
  "transaction \<Rightarrow> (string \<times> rat \<times> nat \<times> string set) list
     \<Rightarrow> (string \<times> rat \<times> nat \<times> string set) list" where
  "trend_step t trend =
     (let date = Date t;
          trend = (if map_of trend date = None
                   then AList.update date (0, 0, {}) trend
                   else trend);
          trend = AList.map_entry date (\<lambda>(r, n, cs). (r + amount t, n, cs)) trend;
          trend = AList.map_entry date (\<lambda>(r, n, cs). (r, n + 1, cs)) trend;
          trend = AList.map_entry date (\<lambda>(r, n, cs). (r, n, insert (CustomerID t) cs)) trend
      in trend)"

record day_stats =
  revenue :: rat
  day_transaction_count :: nat
  unique_customers :: nat

text \<open>
  The keys of \<^verbatim>\<open>trend\<close> are distinct, so walking \<^verbatim>\<open>sorted(trend.keys())\<close> and reading
  \<^verbatim>\<open>trend[d]\<close> is walking the items sorted by key.
\<close>

definition daily_sales_trend :: "transaction list \<Rightarrow> (string \<times> day_stats) list" where
  "daily_sales_trend transactions =
     (let trend = fold trend_step transactions []
      in map (\<lambda>(d, r, n, cs).
                (d, \<lparr>revenue = py_round2 r, day_transaction_count = n,
                     unique_customers = card cs\<rparr>))
             (sort_key fst trend))"

text \<open>\<^verbatim>\<open>max(..., key=k)\<close> keeps the first of the maximal elements.\<close>

fun max_by :: "('a \<Rightarrow> rat) \<Rightarrow> 'a \<Rightarrow> 'a list \<Rightarrow> 'a" where
  "max_by k best [] = best"
| "max_by k best (x # xs) = max_by k (if k best < k x then x else best) xs"

definition find_peak_sales_day :: "transaction list \<Rightarrow> (string \<times> rat \<times> nat) option" where
  "find_peak_sales_day transactions =
     (case daily_sales_trend transactions of
        [] \<Rightarrow> None
      | item # trend \<Rightarrow>
          (let (peak_date, s) = max_by (\<lambda>x. revenue (snd x)) item trend
           in Some (peak_date, revenue s, day_transaction_count s)))"

subsection \<open>enrich_sales_data\<close>

text \<open>
  The body of the loop: the bare \<^verbatim>\<open>except\<close> turns a failed \<^verbatim>\<open>int(tx['ProductID'][1:])\<close>
  into the key \<open>-1\<close>; the copy of the dictionary keeps the eight keys of \<open>tx\<close>.
\<close>

definition enrich_tx ::
  "(string \<Rightarrow> int option) \<Rightarrow> (int \<rightharpoonup> product_info) \<Rightarrow> transaction \<Rightarrow> enriched_transaction" where
  "enrich_tx py_int product_mapping tx =
     (let prod_id_num = (case py_int (drop 1 (ProductID tx)) of None \<Rightarrow> - 1 | Some k \<Rightarrow> k)
      in case product_mapping prod_id_num of
           Some info \<Rightarrow>
             \<lparr>TransactionID = TransactionID tx, Date = Date tx, ProductID = ProductID tx,
              ProductName = ProductName tx, Quantity = Quantity tx, UnitPrice = UnitPrice tx,
              CustomerID = CustomerID tx, Region = Region tx,
              API_Category = Some (category info), API_Brand = Some (brand info),
              API_Rating = Some (rating info), API_Match = True\<rparr>
         | None \<Rightarrow>
             \<lparr>TransactionID = TransactionID tx, Date = Date tx, ProductID = ProductID tx,
              ProductName = ProductName tx, Quantity = Quantity tx, UnitPrice = UnitPrice tx,
              CustomerID = CustomerID tx, Region = Region tx,
              API_Category = None, API_Brand = None,
              API_Rating = None, API_Match = False\<rparr>)"

fun enrich_loop ::
  "(string \<Rightarrow> int option) \<Rightarrow> (int \<rightharpoonup> product_info) \<Rightarrow> transaction list
     \<Rightarrow> enriched_transaction list \<Rightarrow> enriched_transaction list" where
  "enrich_loop py_int product_mapping [] enriched_list = enriched_list"
| "enrich_loop py_int product_mapping (tx # transactions) enriched_list =
     enrich_loop py_int product_mapping transactions
       (enriched_list @ [enrich_tx py_int product_mapping tx])"

definition enrich_sales_data ::
  "(string \<Rightarrow> int option) \<Rightarrow> transaction list \<Rightarrow> (int \<rightharpoonup> product_info)
     \<Rightarrow> enriched_transaction list" where
  "enrich_sales_data py_int transactions product_mapping =
     enrich_loop py_int product_mapping transactions []"

subsection \<open>save_enriched_data\<close>

text \<open>\<^verbatim>\<open>str(n)\<close> of an integer, \<^verbatim>\<open>str(b)\<close> of a boolean.\<close>

definition digit_char :: "nat \<Rightarrow> char" where
  "digit_char d = ''0123456789'' ! d"

function str_nat :: "nat \<Rightarrow> string" where
  "str_nat n = (if n < 10 then [digit_char n] else str_nat (n div 10) @ [digit_char (n mod 10)])"
  by pat_completeness auto
termination
  by (relation "measure id") auto

declare str_nat.simps [simp del]

definition str_int :: "int \<Rightarrow> string" where
  "str_int i = (if i < 0 then CHR ''-'' # str_nat (nat (- i)) else str_nat (nat i))"

definition str_bool :: "bool \<Rightarrow> string" where
  "str_bool b = (if b then ''True'' else ''False'')"

definition headers :: "string list" where
  "headers = [''TransactionID'', ''Date'', ''ProductID'', ''ProductName'', ''Quantity'',
              ''UnitPrice'', ''CustomerID'', ''Region'', ''API_Category'', ''API_Brand'',
              ''API_Rating'', ''API_Match'']"

text \<open>
  \<^verbatim>\<open>[str(tx.get(h, "None")) for h in headers]\<close>: every key is present in an enriched
  dictionary, and \<^verbatim>\<open>str(None)\<close> is \<^verbatim>\<open>"None"\<close>.
\<close>

definition row_of :: "(rat \<Rightarrow> string) \<Rightarrow> enriched_transaction \<Rightarrow> string list" where
  "row_of str_float tx =
     [TransactionID tx, Date tx, ProductID tx, ProductName tx, str_int (Quantity tx),
      str_float (UnitPrice tx), CustomerID tx, Region tx,
      (case API_Category tx of None \<Rightarrow> ''None'' | Some c \<Rightarrow> c),
      (case API_Brand tx of None \<Rightarrow> ''None'' | Some b \<Rightarrow> b),
      (case API_Rating tx of None \<Rightarrow> ''None'' | Some r \<Rightarrow> str_float r),
      str_bool (API_Match tx)]"

text \<open>The lines written, without their final newline: the header, then one row each.\<close>

definition written_lines :: "(rat \<Rightarrow> string) \<Rightarrow> enriched_transaction list \<Rightarrow> string list" where
  "written_lines str_float enriched_transactions =
     join CHR ''|'' headers
       # map (\<lambda>tx. join CHR ''|'' (row_of str_float tx)) enriched_transactions"

text \<open>The text of the file: every line followed by a newline.\<close>

definition save_enriched_data :: "(rat \<Rightarrow> string) \<Rightarrow> enriched_transaction list \<Rightarrow> string" where
  "save_enriched_data str_float enriched_transactions =
     concat (map (\<lambda>l. l @ [CHR 0x0A]) (written_lines str_float enriched_transactions))"

subsection \<open>generate_sales_report\<close>

text \<open>
  The second step of \<^verbatim>\<open>generate_sales_report\<close>, which gathers what the report prints;
  the layout of the text and the write to the file are not modelled. The tuple
  assignment \<^verbatim>\<open>peak_day, peak_rev, _ = find_peak_sales_day(transactions)\<close> raises
  \<^verbatim>\<open>TypeError\<close> when the function returns \<^verbatim>\<open>None\<close>.
\<close>

record report_data =
  rep_total_rev :: rat
  rep_total_tx :: nat
  rep_avg_order :: rat
  rep_date_range :: string
  rep_reg_stats :: "(string \<times> region_stats) list"
  rep_top_prods :: "(string \<times> int \<times> rat) list"
  rep_trend :: "(string \<times> day_stats) list"
  rep_peak_day :: string
  rep_peak_rev :: rat
  rep_low_prods :: "(string \<times> int) list"
  rep_total_enriched :: nat
  rep_success_rate :: rat
  rep_failed_products :: "string list"

definition generate_sales_report ::
  "transaction list \<Rightarrow> enriched_transaction list \<Rightarrow> error + report_data" where
  "generate_sales_report transactions enriched_transactions =
     (let total_rev = calculate_total_revenue transactions;
          total_tx = length transactions;
          avg_order = (if total_tx > 0 then total_rev / of_nat total_tx else 0);
          dates = map Date transactions;
          date_range = (case dates of
                          [] \<Rightarrow> ''N/A''
                        | d # ds \<Rightarrow> fold min ds d @ '' to '' @ fold max ds d)
      in case region_wise_sales transactions of
           Inl e \<Rightarrow> Inl e
         | Inr reg_stats \<Rightarrow>
             (let top_prods = top_selling_products transactions 5;
                  trend = daily_sales_trend transactions
              in case find_peak_sales_day transactions of
                   None \<Rightarrow> Inl TypeError
                 | Some (peak_day, peak_rev, _) \<Rightarrow>
                     (let low_prods = low_performing_products transactions 10;
                          total_enriched = length (filter API_Match enriched_transactions);
                          success_rate =
                            (if enriched_transactions \<noteq> []
                             then of_nat total_enriched
                                    / of_nat (length enriched_transactions) * 100
                             else 0);
                          failed_products =
                            sorted_list_of_set
                              (set (map ProductName
                                     (filter (\<lambda>t. \<not> API_Match t) enriched_transactions)))
                      in Inr \<lparr>rep_total_rev = total_rev, rep_total_tx = total_tx,
                              rep_avg_order = avg_order, rep_date_range = date_range,
                              rep_reg_stats = reg_stats, rep_top_prods = top_prods,
                              rep_trend = trend, rep_peak_day = peak_day,
                              rep_peak_rev = peak_rev, rep_low_prods = low_prods,
                              rep_total_enriched = total_enriched,
                              rep_success_rate = success_rate,
                              rep_failed_products = failed_products\<rparr>)))"

subsection \<open>The specification's predicates\<close>

text \<open>
  The definitions of this subsection follow the words of the specification, not the
  code; the theorems below compare them with the functions above.
\<close>






text \<open>A line the parser keeps, and the record it keeps for it.\<close>

definition spec_line_ok ::
  "(string \<Rightarrow> int option) \<Rightarrow> (string \<Rightarrow> rat option) \<Rightarrow> string \<Rightarrow> bool" where
  "spec_line_ok py_int py_float line =
     (let fields = split_on CHR ''|'' line
      in length fields = 8
         \<and> py_int (remove_char CHR '','' (fields ! 4)) \<noteq> None
         \<and> py_float (remove_char CHR '','' (fields ! 5)) \<noteq> None)"

definition spec_line_record ::
  "(string \<Rightarrow> int option) \<Rightarrow> (string \<Rightarrow> rat option) \<Rightarrow> string \<Rightarrow> transaction" where
  "spec_line_record py_int py_float line =
     (let fields = split_on CHR ''|'' line
      in \<lparr>TransactionID = strip (fields ! 0),
          Date = strip (fields ! 1),
          ProductID = strip (fields ! 2),
          ProductName = strip (replace_char CHR '','' CHR '' '' (fields ! 3)),
          Quantity = the (py_int (remove_char CHR '','' (fields ! 4))),
          UnitPrice = the (py_float (remove_char CHR '','' (fields ! 5))),
          CustomerID = strip (fields ! 6),
          Region = strip (fields ! 7)\<rparr>)"

text \<open>The numeric key of a transaction, and what the enricher adds for it.\<close>

definition spec_catalog_key :: "(string \<Rightarrow> int option) \<Rightarrow> transaction \<Rightarrow> int" where
  "spec_catalog_key py_int t =
     (case py_int (drop 1 (ProductID t)) of None \<Rightarrow> - 1 | Some k \<Rightarrow> k)"

subsection \<open>Examples\<close>

text \<open>
  Conversions for the examples: the decimal strings the examples use, read as
  \<^verbatim>\<open>int\<close> and \<^verbatim>\<open>float\<close> read them; every other string is refused here.
\<close>

definition ex_int :: "string \<Rightarrow> int option" where
  "ex_int s = (if s = ''5'' then Some 5 else if s = ''1'' then Some 1
               else if s = ''001'' then Some 1 else None)"

definition ex_float :: "string \<Rightarrow> rat option" where
  "ex_float s = (if s = ''10.00'' then Some 10 else if s = ''2.5'' then Some (5 / 2) else None)"


definition tx1 :: transaction where
  "tx1 = \<lparr>TransactionID = ''T001'', Date = ''2024-01-01'', ProductID = ''P001'',
          ProductName = ''Widget'', Quantity = 5, UnitPrice = 10, CustomerID = ''C001'',
          Region = ''North''\<rparr>"

definition tx2 :: transaction where
  "tx2 = \<lparr>TransactionID = ''T002'', Date = ''2024-01-02'', ProductID = ''PABC'',
          ProductName = ''Gadget'', Quantity = 1, UnitPrice = 5 / 2, CustomerID = ''C002'',
          Region = ''NorthEast''\<rparr>"


definition info1 :: product_info where
  "info1 = \<lparr>title = ''Widget'', category = ''tools'', brand = ''Acme'', rating = 9 / 2\<rparr>"







section \<open>Validation and filtering\<close>












section \<open>Parsing\<close>

lemma parse_line_eq:
  "parse_line py_int py_float line =
     (if spec_line_ok py_int py_float line then Some (spec_line_record py_int py_float line)
      else None)"
  by (auto simp: parse_line_def spec_line_ok_def spec_line_record_def Let_def
      split: option.splits)

lemma parse_loop_eq:
  "parse_loop py_int py_float ls acc =
     acc @ map (spec_line_record py_int py_float) (filter (spec_line_ok py_int py_float) ls)"
  by (induction ls arbitrary: acc) (simp_all add: parse_line_eq)

text \<open>
  C3. For every list of raw lines and every pair of conversions, the parser returns, in
  the order of the input, one record for each line that splits on \<^verbatim>\<open>|\<close> into exactly 8
  fields and whose quantity and price fields, commas removed, convert; every other line
  is left out, and nothing is raised. The record holds the trimmed fields, the product
  name with its commas replaced by spaces, and the two converted numbers.
\<close>

theorem parse_transactions_keeps_exactly:
  "parse_transactions py_int py_float raw_lines =
     map (spec_line_record py_int py_float) (filter (spec_line_ok py_int py_float) raw_lines)"
  by (simp add: parse_transactions_def parse_loop_eq)

theorem parse_transactions_keeps_exactly_witness:
  "parse_transactions ex_int ex_float
     [''T001|2024-01-01|P001| Wid,get |5|10.00|C001|North '', ''broken|line'',
      ''T009|2024-01-01|P001|Widget|five|10.00|C001|North'',
      ''T002|2024-01-02|PABC|Gadget|1|2.5|C002|NorthEast''] =
   [tx1\<lparr>ProductName := ''Wid get''\<rparr>, tx2]"
  using parse_transactions_keeps_exactly [of ex_int ex_float
      "[''T001|2024-01-01|P001| Wid,get |5|10.00|C001|North '', ''broken|line'',
        ''T009|2024-01-01|P001|Widget|five|10.00|C001|North'',
        ''T002|2024-01-02|PABC|Gadget|1|2.5|C002|NorthEast'']"]
  by (simp add: spec_line_ok_def spec_line_record_def Let_def remove_char_def replace_char_def
      strip_def py_isspace_def ex_int_def ex_float_def tx1_def tx2_def del: not_None_eq)

section \<open>Enrichment\<close>

lemma enrich_loop_eq:
  "enrich_loop py_int m txs acc = acc @ map (enrich_tx py_int m) txs"
  by (induction txs arbitrary: acc) simp_all

lemma enrich_sales_data_map:
  "enrich_sales_data py_int txs m = map (enrich_tx py_int m) txs"
  by (simp add: enrich_sales_data_def enrich_loop_eq)

lemma truncate_enrich_tx: "transaction.truncate (enrich_tx py_int m t) = t"
  by (cases t) (simp add: enrich_tx_def transaction.truncate_def Let_def split: option.splits)

lemma enrich_tx_fields:
  "case m (spec_catalog_key py_int t) of
     Some info \<Rightarrow>
       API_Category (enrich_tx py_int m t) = Some (category info)
       \<and> API_Brand (enrich_tx py_int m t) = Some (brand info)
       \<and> API_Rating (enrich_tx py_int m t) = Some (rating info)
       \<and> API_Match (enrich_tx py_int m t)
   | None \<Rightarrow>
       API_Category (enrich_tx py_int m t) = None
       \<and> API_Brand (enrich_tx py_int m t) = None
       \<and> API_Rating (enrich_tx py_int m t) = None
       \<and> \<not> API_Match (enrich_tx py_int m t)"
  by (simp add: enrich_tx_def spec_catalog_key_def Let_def split: option.splits)

text \<open>
  C4. Enrichment is total and keeps the order: the output has the length of the input,
  and its \<open>i\<close>-th record is the \<open>i\<close>-th transaction with its eight fields unchanged
  (\<open>transaction.truncate\<close> cuts an enriched record back to those eight fields) and the
  four API fields added: the category, brand and rating of the mapping's entry and
  \<open>API_Match = True\<close> when the numeric key is in the mapping, three nulls and
  \<open>API_Match = False\<close> when it is not.
\<close>

theorem enrich_sales_data_total_in_order:
  "length (enrich_sales_data py_int txs m) = length txs \<and>
   (\<forall>i < length txs.
      transaction.truncate (enrich_sales_data py_int txs m ! i) = txs ! i
      \<and> (case m (spec_catalog_key py_int (txs ! i)) of
            Some info \<Rightarrow>
              API_Category (enrich_sales_data py_int txs m ! i) = Some (category info)
              \<and> API_Brand (enrich_sales_data py_int txs m ! i) = Some (brand info)
              \<and> API_Rating (enrich_sales_data py_int txs m ! i) = Some (rating info)
              \<and> API_Match (enrich_sales_data py_int txs m ! i)
          | None \<Rightarrow>
              API_Category (enrich_sales_data py_int txs m ! i) = None
              \<and> API_Brand (enrich_sales_data py_int txs m ! i) = None
              \<and> API_Rating (enrich_sales_data py_int txs m ! i) = None
              \<and> \<not> API_Match (enrich_sales_data py_int txs m ! i)))"
proof (intro conjI allI impI)
  show "length (enrich_sales_data py_int txs m) = length txs"
    by (simp add: enrich_sales_data_map)
next
  fix i assume "i < length txs"
  then have nth: "enrich_sales_data py_int txs m ! i = enrich_tx py_int m (txs ! i)"
    by (simp add: enrich_sales_data_map)
  show "transaction.truncate (enrich_sales_data py_int txs m ! i) = txs ! i"
    by (simp add: nth truncate_enrich_tx)
  show "case m (spec_catalog_key py_int (txs ! i)) of
          Some info \<Rightarrow>
            API_Category (enrich_sales_data py_int txs m ! i) = Some (category info)
            \<and> API_Brand (enrich_sales_data py_int txs m ! i) = Some (brand info)
            \<and> API_Rating (enrich_sales_data py_int txs m ! i) = Some (rating info)
            \<and> API_Match (enrich_sales_data py_int txs m ! i)
        | None \<Rightarrow>
            API_Category (enrich_sales_data py_int txs m ! i) = None
            \<and> API_Brand (enrich_sales_data py_int txs m ! i) = None
            \<and> API_Rating (enrich_sales_data py_int txs m ! i) = None
            \<and> \<not> API_Match (enrich_sales_data py_int txs m ! i)"
    unfolding nth by (rule enrich_tx_fields)
qed

text \<open>
  With the one-entry catalog \<open>1 \<mapsto> info1\<close>: \<^verbatim>\<open>P001\<close> has the key 1 and is matched,
  \<^verbatim>\<open>PABC\<close> is not.
\<close>

theorem enrich_sales_data_total_in_order_witness:
  "length (enrich_sales_data ex_int [tx1, tx2] (Map.empty(1 \<mapsto> info1))) = 2
   \<and> transaction.truncate (enrich_sales_data ex_int [tx1, tx2] (Map.empty(1 \<mapsto> info1)) ! 0) = tx1
   \<and> API_Category (enrich_sales_data ex_int [tx1, tx2] (Map.empty(1 \<mapsto> info1)) ! 0)
       = Some ''tools''
   \<and> API_Match (enrich_sales_data ex_int [tx1, tx2] (Map.empty(1 \<mapsto> info1)) ! 0)
   \<and> transaction.truncate (enrich_sales_data ex_int [tx1, tx2] (Map.empty(1 \<mapsto> info1)) ! 1) = tx2
   \<and> API_Category (enrich_sales_data ex_int [tx1, tx2] (Map.empty(1 \<mapsto> info1)) ! 1) = None
   \<and> \<not> API_Match (enrich_sales_data ex_int [tx1, tx2] (Map.empty(1 \<mapsto> info1)) ! 1)"
proof -
  note t = enrich_sales_data_total_in_order [of ex_int "[tx1, tx2]" "Map.empty(1 \<mapsto> info1)"]
  have k0: "spec_catalog_key ex_int ([tx1, tx2] ! 0) = 1"
    by (simp add: spec_catalog_key_def ex_int_def tx1_def)
  have k1: "spec_catalog_key ex_int ([tx1, tx2] ! 1) = - 1"
    by (simp add: spec_catalog_key_def ex_int_def tx2_def)
  from t have len: "length (enrich_sales_data ex_int [tx1, tx2] (Map.empty(1 \<mapsto> info1))) = 2"
    by simp
  from t [THEN conjunct2, rule_format, of 0] k0
  have r0: "transaction.truncate (enrich_sales_data ex_int [tx1, tx2] (Map.empty(1 \<mapsto> info1)) ! 0) = tx1
    \<and> API_Category (enrich_sales_data ex_int [tx1, tx2] (Map.empty(1 \<mapsto> info1)) ! 0) = Some ''tools''
    \<and> API_Match (enrich_sales_data ex_int [tx1, tx2] (Map.empty(1 \<mapsto> info1)) ! 0)"
    by (simp add: info1_def)
  from t [THEN conjunct2, rule_format, of 1] k1
  have r1: "transaction.truncate (enrich_sales_data ex_int [tx1, tx2] (Map.empty(1 \<mapsto> info1)) ! 1) = tx2
    \<and> API_Category (enrich_sales_data ex_int [tx1, tx2] (Map.empty(1 \<mapsto> info1)) ! 1) = None
    \<and> \<not> API_Match (enrich_sales_data ex_int [tx1, tx2] (Map.empty(1 \<mapsto> info1)) ! 1)"
    by simp
  from len r0 r1 show ?thesis by simp
qed

text \<open>
  C7 (as the code has it). A transaction whose product id, the first character dropped,
  does not convert to an integer gets the key \<open>-1\<close>; when the mapping has no entry under
  \<open>-1\<close>, its enriched record is the transaction with three null API fields and
  \<open>API_Match = False\<close>. Enrichment raises nothing: the function is total.
\<close>

theorem enrich_unconvertible_unmatched:
  assumes "i < length txs"
    and "py_int (drop 1 (ProductID (txs ! i))) = None"
    and "m (- 1) = None"
  shows "enrich_sales_data py_int txs m ! i =
           \<lparr>TransactionID = TransactionID (txs ! i), Date = Date (txs ! i),
            ProductID = ProductID (txs ! i), ProductName = ProductName (txs ! i),
            Quantity = Quantity (txs ! i), UnitPrice = UnitPrice (txs ! i),
            CustomerID = CustomerID (txs ! i), Region = Region (txs ! i),
            API_Category = None, API_Brand = None, API_Rating = None, API_Match = False\<rparr>"
  using assms by (simp add: enrich_sales_data_map enrich_tx_def)

theorem enrich_unconvertible_unmatched_witness:
  "(1::nat) < length [tx1, tx2]
   \<and> ex_int (drop 1 (ProductID ([tx1, tx2] ! 1))) = None
   \<and> (Map.empty(1 \<mapsto> info1)) (- 1 :: int) = None
   \<and> enrich_sales_data ex_int [tx1, tx2] (Map.empty(1 \<mapsto> info1)) ! 1 =
       \<lparr>TransactionID = ''T002'', Date = ''2024-01-02'', ProductID = ''PABC'',
        ProductName = ''Gadget'', Quantity = 1, UnitPrice = 5 / 2, CustomerID = ''C002'',
        Region = ''NorthEast'',
        API_Category = None, API_Brand = None, API_Rating = None, API_Match = False\<rparr>"
proof -
  have a: "(1::nat) < length [tx1, tx2]" by simp
  have b: "ex_int (drop 1 (ProductID ([tx1, tx2] ! 1))) = None"
    by (simp add: ex_int_def tx2_def)
  have c: "(Map.empty(1 \<mapsto> info1)) (- 1 :: int) = None" by simp
  from a b c
    enrich_unconvertible_unmatched [of 1 "[tx1, tx2]" ex_int "Map.empty(1 \<mapsto> info1)", OF a b c]
  show ?thesis
    by (simp add: tx2_def)
qed

text \<open>
  The claim as stated fails for a mapping that has an entry under \<open>-1\<close>: the record of
  \<^verbatim>\<open>PABC\<close> is then matched.
\<close>

theorem sentinel_key_in_mapping_matches:
  "ex_int (drop 1 (ProductID tx2)) = None
   \<and> API_Match (enrich_sales_data ex_int [tx2] (Map.empty(- 1 \<mapsto> info1)) ! 0)
   \<and> API_Category (enrich_sales_data ex_int [tx2] (Map.empty(- 1 \<mapsto> info1)) ! 0) = Some ''tools''"
  by (simp add: enrich_sales_data_def enrich_tx_def ex_int_def tx2_def info1_def Let_def)

section \<open>The report\<close>

text \<open>
  C1 (the code at the failing input). For an empty transaction list
  \<^verbatim>\<open>find_peak_sales_day\<close> returns \<^verbatim>\<open>None\<close>, the tuple assignment of its result raises
  \<^verbatim>\<open>TypeError\<close>, and \<^verbatim>\<open>generate_sales_report\<close> produces no report, whatever the enriched
  list is.
\<close>

theorem generate_sales_report_empty_raises:
  "find_peak_sales_day [] = None \<and> generate_sales_report [] enriched = Inl TypeError"
  by (simp add: generate_sales_report_def region_wise_sales_def calculate_total_revenue_def
      find_peak_sales_day_def daily_sales_trend_def Let_def)

section \<open>Aggregation\<close>






lemma add_percentages_Inl:
  "add_percentages total_rev stats = Inl e
     \<Longrightarrow> e = ZeroDivisionError \<and> total_rev = 0 \<and> stats \<noteq> []"
  by (induction stats arbitrary: e) (auto split: if_splits sum.splits)




lemma fold_region_step_nonempty:
  "txs \<noteq> [] \<or> stats \<noteq> [] \<Longrightarrow> fold region_step txs stats \<noteq> []"
proof (induction txs arbitrary: stats)
  case Nil
  then show ?case by simp
next
  case (Cons t txs)
  have "fst ` set (region_step t stats) \<noteq> {}"
    by (auto simp: region_step_def Let_def AList.dom_map_entry AList.update_keys)
  then have "region_step t stats \<noteq> []" by auto
  with Cons.IH show ?case by simp
qed





text \<open>
  \<^verbatim>\<open>region_wise_sales\<close> raises exactly on the lists that are not empty and have a total
  revenue of zero, and what it raises is \<^verbatim>\<open>ZeroDivisionError\<close>.
\<close>

theorem region_wise_sales_raises_iff:
  "region_wise_sales txs = Inl e \<longleftrightarrow>
     e = ZeroDivisionError \<and> txs \<noteq> [] \<and> calculate_total_revenue txs = 0"
proof
  assume l: "region_wise_sales txs = Inl e"
  then have "add_percentages (calculate_total_revenue txs) (fold region_step txs []) = Inl e"
    by (simp add: region_wise_sales_def Let_def split: sum.splits)
  from add_percentages_Inl [OF this]
  show "e = ZeroDivisionError \<and> txs \<noteq> [] \<and> calculate_total_revenue txs = 0"
    by auto
next
  assume r: "e = ZeroDivisionError \<and> txs \<noteq> [] \<and> calculate_total_revenue txs = 0"
  then have "fold region_step txs [] \<noteq> []"
    using fold_region_step_nonempty by blast
  then obtain item rest where "fold region_step txs [] = item # rest"
    by (cases "fold region_step txs []") auto
  with r show "region_wise_sales txs = Inl e"
    by (cases item) (simp add: region_wise_sales_def Let_def)
qed

subsection \<open>The average of customer_analysis\<close>

lemma purchase_count_map_entry:
  "list_all (\<lambda>item. 0 < purchase_count (snd item)) al \<Longrightarrow>
   (\<And>s. purchase_count s \<le> purchase_count (f s)) \<Longrightarrow>
   list_all (\<lambda>item. 0 < purchase_count (snd item)) (AList.map_entry k f al)"
proof (induction al)
  case Nil
  then show ?case by simp
next
  case (Cons p al)
  from Cons.prems(2) [of "snd p"] Cons show ?case
    by (auto intro: less_le_trans)
qed

lemma update_absent: "map_of al k = None \<Longrightarrow> AList.update k v al = al @ [(k, v)]"
  by (induction al) auto

lemma map_entry_absent_append:
  "map_of al k = None \<Longrightarrow> AList.map_entry k f (al @ [(k, v)]) = al @ [(k, f v)]"
  by (induction al) auto

lemma customer_step_positive:
  assumes "list_all (\<lambda>item. 0 < purchase_count (snd item)) al"
  shows "list_all (\<lambda>item. 0 < purchase_count (snd item)) (customer_step t al)"
proof (cases "map_of al (CustomerID t)")
  case None
  then show ?thesis using assms
    by (simp add: customer_step_def Let_def update_absent map_entry_absent_append)
next
  case (Some s)
  then show ?thesis using assms
    by (simp add: customer_step_def Let_def purchase_count_map_entry)
qed

lemma fold_customer_step_positive:
  "list_all (\<lambda>item. 0 < purchase_count (snd item)) al \<Longrightarrow>
   list_all (\<lambda>item. 0 < purchase_count (snd item)) (fold customer_step txs al)"
  by (induction txs arbitrary: al) (simp_all add: customer_step_positive)

lemma add_averages_Inr:
  "list_all (\<lambda>item. 0 < purchase_count (snd item)) al \<Longrightarrow> \<exists>r. add_averages al = Inr r"
  by (induction al) auto

text \<open>
  The average order value of a customer divides by a purchase count that is at least
  one: \<^verbatim>\<open>customer_analysis\<close> returns on every list.
\<close>

theorem customer_analysis_returns: "\<exists>r. customer_analysis txs = Inr r"
proof -
  have "list_all (\<lambda>item. 0 < purchase_count (snd item)) (fold customer_step txs [])"
    by (rule fold_customer_step_positive) simp
  from add_averages_Inr [OF this] show ?thesis
    by (auto simp: customer_analysis_def)
qed

section \<open>The enriched file\<close>














section \<open>Further properties of the aggregation\<close>

lemma sorted_desc_sort_key_int:
  "sorted_wrt (\<lambda>a b. b \<le> a) (map g (sort_key (\<lambda>x. - g x) xs))"
  for g :: "'a \<Rightarrow> int"
proof -
  have "sorted (map (\<lambda>x. - g x) (sort_key (\<lambda>x. - g x) xs))"
    by (rule sorted_sort_key)
  then show ?thesis
    by (simp add: sorted_wrt_map)
qed

text \<open>
  \<^verbatim>\<open>top_selling_products\<close> returns at most \<open>n\<close> entries, in descending order of the
  summed quantity.
\<close>

theorem top_selling_products_bounded_sorted:
  "length (top_selling_products txs n) \<le> n
   \<and> sorted_wrt (\<lambda>a b. b \<le> a) (map (\<lambda>x. fst (snd x)) (top_selling_products txs n))"
proof -
  have "sorted_wrt (\<lambda>a b. fst (snd b) \<le> fst (snd a))
          (take n (sort_key (\<lambda>x. - fst (snd x)) (fold product_step txs [])))"
    using sorted_desc_sort_key_int [of "\<lambda>x. fst (snd x)" "fold product_step txs []"]
    by (simp add: sorted_wrt_map sorted_wrt_take)
  then show ?thesis
    by (simp add: top_selling_products_def Let_def sorted_wrt_map)
qed

lemma fold_trend_step_nonempty:
  "txs \<noteq> [] \<or> trend \<noteq> [] \<Longrightarrow> fold trend_step txs trend \<noteq> []"
proof (induction txs arbitrary: trend)
  case Nil
  then show ?case by simp
next
  case (Cons t txs)
  have "fst ` set (trend_step t trend) \<noteq> {}"
    by (auto simp: trend_step_def Let_def AList.dom_map_entry AList.update_keys)
  then have "trend_step t trend \<noteq> []" by auto
  with Cons.IH show ?case by simp
qed

text \<open>\<^verbatim>\<open>find_peak_sales_day\<close> returns \<^verbatim>\<open>None\<close> exactly for the empty list.\<close>

theorem find_peak_sales_day_None_iff: "find_peak_sales_day txs = None \<longleftrightarrow> txs = []"
proof -
  have sk: "sort_key fst xs = [] \<longleftrightarrow> xs = []"
    for xs :: "(string \<times> rat \<times> nat \<times> string set) list"
    using length_sort [of fst xs] by (metis length_0_conv)
  have "daily_sales_trend txs = [] \<longleftrightarrow> txs = []"
    using fold_trend_step_nonempty [of txs "[]"]
    by (auto simp: daily_sales_trend_def Let_def sk)
  then show ?thesis
    by (auto simp: find_peak_sales_day_def Let_def split: list.splits prod.splits)
qed

text \<open>
  The data of the report are gathered, with nothing raised, exactly for the lists that are
  not empty and have a total revenue that is not zero.
\<close>

theorem generate_sales_report_returns_iff:
  "(\<exists>r. generate_sales_report txs etxs = Inr r) \<longleftrightarrow>
     txs \<noteq> [] \<and> calculate_total_revenue txs \<noteq> 0"
proof (cases "region_wise_sales txs")
  case (Inl e)
  then show ?thesis using region_wise_sales_raises_iff [of txs e]
    by (simp add: generate_sales_report_def Let_def)
next
  case (Inr stats)
  then have nz: "txs = [] \<or> calculate_total_revenue txs \<noteq> 0"
    using region_wise_sales_raises_iff [of txs ZeroDivisionError] by auto
  show ?thesis
  proof (cases "find_peak_sales_day txs")
    case None
    then show ?thesis using Inr find_peak_sales_day_None_iff [of txs]
      by (simp add: generate_sales_report_def Let_def)
  next
    case (Some p)
    then have "txs \<noteq> []" using find_peak_sales_day_None_iff [of txs] by auto
    with nz Some Inr show ?thesis
      by (cases p) (auto simp: generate_sales_report_def Let_def)
  qed
qed

end
